theory Spec2Isabelle
  imports Main
begin

section \<open>The Docker Hub client of version-checker (pkg/client/docker/docker.go)\<close>

text \<open>
  A shallow embedding of \<^verbatim>\<open>docker.go\<close>. Go strings are byte strings (\<open>string\<close>); a Go
  \<^verbatim>\<open>error\<close> is represented by its message; a function returning \<^verbatim>\<open>(v, error)\<close> returns
  \<open>error + 'a\<close>, with \<open>Inl\<close> for the non-nil error (the value returned beside it is
  \<^verbatim>\<open>nil\<close> or \<^verbatim>\<open>""\<close> at every such return of the source). The context argument only
  carries cancellation and is left out.
\<close>

type_synonym error = string

subsection \<open>Constants\<close>

definition imagePrefix :: string where
  "imagePrefix = ''docker.io/''"

definition imagePrefixHub :: string where
  "imagePrefixHub = ''registry.hub.docker.com/''"

text \<open>\<^verbatim>\<open>fmt.Sprintf(repoURL, s)\<close>: the template has one \<^verbatim>\<open>%s\<close>, replaced by the string as it is.\<close>

definition repoURL :: "string \<Rightarrow> string" where
  "repoURL s = ''https://registry.hub.docker.com/v2/repositories/'' @ s @ ''/tags''"

subsection \<open>Data model\<close>

record Options =
  LoginURL :: string
  Username :: string
  Password :: string
  JWT :: string

text \<open>
  The embedded \<^verbatim>\<open>*http.Client\<close> is represented by its only configured field, the timeout
  in seconds; its transport is the environment below.
\<close>

record Client =
  Timeout :: nat
  Options :: Options

record AuthResponse =
  Token :: string

record Image =
  Digest :: string
  OS :: string
  Architecture :: string

record Result =
  Name :: string
  Timestamp :: string
  Images :: "Image list"

record TagResponse =
  Next :: string
  Results :: "Result list"

text \<open>
  Modelled from the spec: the type \<^verbatim>\<open>api.ImageTag\<close> of package \<^verbatim>\<open>pkg/api\<close>, which the
  source imports; its fields are the five that \<^verbatim>\<open>Tags\<close> fills. The type \<open>'t\<close> stands for
  \<^verbatim>\<open>time.Time\<close>.
\<close>

record 't ImageTag =
  Tag :: string
  SHA :: string
  Timestamp :: 't
  OS :: string
  Architecture :: string

subsection \<open>Library functions of package strings\<close>

definition HasPrefix :: "string \<Rightarrow> string \<Rightarrow> bool" where
  "HasPrefix s p = (length p \<le> length s \<and> take (length p) s = p)"

definition TrimPrefix :: "string \<Rightarrow> string \<Rightarrow> string" where
  "TrimPrefix s p = (if HasPrefix s p then drop (length p) s else s)"

text \<open>\<^verbatim>\<open>strings.Split(s, sep)\<close> for a separator of one byte, the only use in the source.\<close>

fun Split :: "string \<Rightarrow> char \<Rightarrow> string list" where
  "Split [] sep = [[]]"
| "Split (x # xs) sep =
     (if x = sep then [] # Split xs sep
      else (case Split xs sep of
              [] \<Rightarrow> [[x]]
            | w # ws \<Rightarrow> (x # w) # ws))"

subsection \<open>The environment: net/http, encoding/json and time\<close>

text \<open>
  A parsed URL keeps its scheme apart from the rest, since \<^verbatim>\<open>doRequest\<close> overwrites the
  scheme. A header is the list of its (key, value) entries in the order they were added.
\<close>

record url =
  Scheme :: string
  Rest :: string

record request =
  Method :: string
  URL :: url
  Header :: "(string \<times> string) list"
  ReqBody :: string

text \<open>
  A response as the source reads it: the status code and the outcome of
  \<^verbatim>\<open>ioutil.ReadAll(resp.Body)\<close>.
\<close>

record response =
  StatusCode :: nat
  Body :: "error + string"

text \<open>
  The library calls whose results the source consumes are parameters: URL parsing (inside
  \<^verbatim>\<open>http.NewRequest\<close>), the round trip \<^verbatim>\<open>Do\<close> of the HTTP client over a world state
  \<open>'w\<close> (the registry and the network), \<^verbatim>\<open>json.Unmarshal\<close> at the two types it is used
  at, and \<^verbatim>\<open>time.Parse(time.RFC3339Nano, _)\<close>.
\<close>

record ('w, 't) env =
  parseURL :: "string \<Rightarrow> error + url"
  Do :: "'w \<Rightarrow> request \<Rightarrow> (error + response) \<times> 'w"
  unmarshalTagResponse :: "string \<Rightarrow> error + TagResponse"
  unmarshalAuthResponse :: "string \<Rightarrow> error + AuthResponse"
  parseTime :: "string \<Rightarrow> error + 't"

text \<open>The state threaded through the client: the world, and the requests handed to \<^verbatim>\<open>Do\<close> so far.\<close>

record 'w net =
  World :: 'w
  Sent :: "request list"

definition NewRequest :: "('w, 't) env \<Rightarrow> string \<Rightarrow> string \<Rightarrow> string \<Rightarrow> error + request" where
  "NewRequest env method u body =
     (case parseURL env u of
        Inl err \<Rightarrow> Inl err
      | Inr parsed \<Rightarrow> Inr \<lparr>Method = method, URL = parsed, Header = [], ReqBody = body\<rparr>)"

definition HeaderAdd :: "(string \<times> string) list \<Rightarrow> string \<Rightarrow> string \<Rightarrow> (string \<times> string) list" where
  "HeaderAdd h k v = h @ [(k, v)]"

definition HeaderSet :: "(string \<times> string) list \<Rightarrow> string \<Rightarrow> string \<Rightarrow> (string \<times> string) list" where
  "HeaderSet h k v = filter (\<lambda>kv. fst kv \<noteq> k) h @ [(k, v)]"

definition clientDo :: "('w, 't) env \<Rightarrow> 'w net \<Rightarrow> request \<Rightarrow> (error + response) \<times> 'w net" where
  "clientDo env st req =
     (case Do env (World st) req of
        (r, w) \<Rightarrow> (r, \<lparr>World = w, Sent = Sent st @ [req]\<rparr>))"

subsection \<open>basicAuthSetup and New\<close>

text \<open>The request body of the login call: the two \<^verbatim>\<open>%s\<close> of the template, filled as they are.\<close>

definition loginBody :: "string \<Rightarrow> string \<Rightarrow> string" where
  \<open>loginBody username password =
     ''{"username": "'' @ username @ ''", "password": "'' @ password @ ''"}''\<close>

definition basicAuthSetup :: "('w, 't) env \<Rightarrow> Options \<Rightarrow> 'w net \<Rightarrow> (error + string) \<times> 'w net" where
  "basicAuthSetup env opts st =
     (case NewRequest env ''POST'' (LoginURL opts) (loginBody (Username opts) (Password opts)) of
        Inl err \<Rightarrow> (Inl err, st)
      | Inr req0 \<Rightarrow>
          (let req = req0\<lparr>Header := HeaderSet (Header req0) ''Content-Type'' ''application/json''\<rparr>
           in case clientDo env st req of
                (Inl err, st') \<Rightarrow> (Inl err, st')
              | (Inr resp, st') \<Rightarrow>
                  (case Body resp of
                     Inl err \<Rightarrow> (Inl err, st')
                   | Inr body \<Rightarrow>
                       if StatusCode resp \<noteq> 200 then (Inl body, st')
                       else (case unmarshalAuthResponse env body of
                               Inl err \<Rightarrow> (Inl err, st')
                             | Inr response \<Rightarrow> (Inr (Token response), st')))))"

definition New :: "('w, 't) env \<Rightarrow> Options \<Rightarrow> 'w net \<Rightarrow> (error + Client) \<times> 'w net" where
  "New env opts st =
     (if length (Username opts) > 0 \<or> length (Password opts) > 0 then
        (if length (JWT opts) > 0 then
           (Inl ''cannot specify JWT as well as username/password'', st)
         else (case basicAuthSetup env opts st of
                 (Inl err, st') \<Rightarrow> (Inl (''failed to setup auth: '' @ err), st')
               | (Inr token, st') \<Rightarrow> (Inr \<lparr>Timeout = 5, Options = opts\<lparr>JWT := token\<rparr>\<rparr>, st')))
      else (Inr \<lparr>Timeout = 5, Options = opts\<rparr>, st))"

subsection \<open>IsClient\<close>

definition IsClient :: "Client \<Rightarrow> string \<Rightarrow> bool" where
  "IsClient c imageURL = (HasPrefix imageURL imagePrefix \<or> HasPrefix imageURL imagePrefixHub)"

subsection \<open>doRequest\<close>

definition doRequest ::
  "('w, 't) env \<Rightarrow> Client \<Rightarrow> 'w net \<Rightarrow> string \<Rightarrow> (error + TagResponse) \<times> 'w net" where
  "doRequest env c st u =
     (case NewRequest env ''GET'' u [] of
        Inl err \<Rightarrow> (Inl err, st)
      | Inr req0 \<Rightarrow>
          (let req1 = req0\<lparr>URL := (URL req0)\<lparr>Scheme := ''https''\<rparr>\<rparr>;
               req = (if length (JWT (Options c)) > 0
                      then req1\<lparr>Header := HeaderAdd (Header req1) ''Authorization''
                                              (''JWT '' @ JWT (Options c))\<rparr>
                      else req1)
           in case clientDo env st req of
                (Inl err, st') \<Rightarrow> (Inl (''failed to get docker image: '' @ err), st')
              | (Inr resp, st') \<Rightarrow>
                  (case Body resp of
                     Inl err \<Rightarrow> (Inl err, st')
                   | Inr body \<Rightarrow>
                       (case unmarshalTagResponse env body of
                          Inl err \<Rightarrow> (Inl (''unexpected image tags response: '' @ body), st')
                        | Inr response \<Rightarrow> (Inr response, st')))))"

subsection \<open>Tags\<close>

text \<open>Lines 85 to 95 of \<^verbatim>\<open>Tags\<close>: the repository path of an image reference.\<close>

definition repoPath :: "string \<Rightarrow> string" where
  "repoPath imageURL =
     (let imageURL1 = (if HasPrefix imageURL imagePrefix
                       then TrimPrefix imageURL imagePrefix else imageURL);
          imageURL2 = (if HasPrefix imageURL1 imagePrefixHub
                       then TrimPrefix imageURL1 imagePrefixHub else imageURL1)
      in if length (Split imageURL2 CHR ''/'') = 1 then ''library/'' @ imageURL2
         else imageURL2)"

text \<open>The loop over \<^verbatim>\<open>result.Images\<close>, appending to \<^verbatim>\<open>tags\<close>.\<close>

fun imagesLoop :: "Result \<Rightarrow> 't \<Rightarrow> Image list \<Rightarrow> 't ImageTag list \<Rightarrow> 't ImageTag list" where
  "imagesLoop result timestamp [] tags = tags"
| "imagesLoop result timestamp (img # rest) tags =
     (if length (Digest img) = 0 then imagesLoop result timestamp rest tags
      else imagesLoop result timestamp rest
             (tags @ [\<lparr>Tag = Name result, SHA = Digest img, Timestamp = timestamp,
                       OS = Image.OS img, Architecture = Image.Architecture img\<rparr>]))"

text \<open>The loop over \<^verbatim>\<open>response.Results\<close>; a timestamp that does not parse returns at once.\<close>

fun resultsLoop ::
  "('w, 't) env \<Rightarrow> Result list \<Rightarrow> 't ImageTag list \<Rightarrow> error + 't ImageTag list" where
  "resultsLoop env [] tags = Inr tags"
| "resultsLoop env (result # rest) tags =
     (if length (Images result) = 0 then resultsLoop env rest tags
      else (case parseTime env (Result.Timestamp result) of
              Inl err \<Rightarrow> Inl (''failed to parse image timestamp: '' @ err)
            | Inr timestamp \<Rightarrow>
                resultsLoop env rest (imagesLoop result timestamp (Images result) tags)))"

text \<open>
  The loop \<^verbatim>\<open>for url != ""\<close>. The registry decides how long it runs, so the function is
  partial: \<open>None\<close> is a loop that never ends.
\<close>

partial_function (option) tagsLoop ::
  "('w, 't) env \<Rightarrow> Client \<Rightarrow> string \<Rightarrow> 't ImageTag list \<Rightarrow> 'w net
     \<Rightarrow> ((error + 't ImageTag list) \<times> 'w net) option" where
  "tagsLoop env c u tags st =
     (if u = [] then Some (Inr tags, st)
      else (case doRequest env c st u of
              (Inl err, st') \<Rightarrow> Some (Inl err, st')
            | (Inr response, st') \<Rightarrow>
                (case resultsLoop env (Results response) tags of
                   Inl err \<Rightarrow> Some (Inl err, st')
                 | Inr tags' \<Rightarrow> tagsLoop env c (Next response) tags' st')))"

declare tagsLoop.simps [code]

definition Tags ::
  "('w, 't) env \<Rightarrow> Client \<Rightarrow> 'w net \<Rightarrow> string
     \<Rightarrow> ((error + 't ImageTag list) \<times> 'w net) option" where
  "Tags env c st imageURL = tagsLoop env c (repoURL (repoPath imageURL)) [] st"

subsection \<open>The specification's notions\<close>

text \<open>
  Normalization as the specification words it: the one recognized host prefix that the
  reference begins with is stripped, and a path without a separator gets the namespace.
\<close>

definition spec_repoPath :: "string \<Rightarrow> string" where
  "spec_repoPath imageURL =
     (let stripped = (if HasPrefix imageURL imagePrefix then drop (length imagePrefix) imageURL
                      else if HasPrefix imageURL imagePrefixHub
                      then drop (length imagePrefixHub) imageURL
                      else imageURL)
      in if CHR ''/'' \<in> set stripped then stripped else ''library/'' @ stripped)"

text \<open>
  The login body as the specification words it: both credentials encoded as JSON strings,
  where a quotation mark, a reverse solidus and every control character are escaped.
\<close>

definition hexDigit :: "nat \<Rightarrow> char" where
  "hexDigit n = ''0123456789abcdef'' ! (n mod 16)"

definition jsonEscape :: "char \<Rightarrow> string" where
  \<open>jsonEscape ch =
     (if ch = CHR ''"'' then [CHR 0x5C, CHR ''"'']
      else if ch = CHR 0x5C then [CHR 0x5C, CHR 0x5C]
      else if (of_char ch :: nat) < 32
      then [CHR 0x5C, CHR ''u'', CHR ''0'', CHR ''0'',
            hexDigit (of_char ch div 16), hexDigit (of_char ch)]
      else [ch])\<close>

definition jsonString :: "string \<Rightarrow> string" where
  \<open>jsonString s = ''"'' @ concat (map jsonEscape s) @ ''"''\<close>

definition spec_loginBody :: "string \<Rightarrow> string \<Rightarrow> string" where
  \<open>spec_loginBody username password =
     ''{"username": '' @ jsonString username @ '', "password": '' @ jsonString password @ ''}''\<close>

text \<open>The ImageTag of a pair of a result, with its parsed timestamp, and one of its images.\<close>

definition imageTagOf :: "Result \<Rightarrow> 't \<Rightarrow> Image \<Rightarrow> 't ImageTag" where
  "imageTagOf result timestamp img =
     \<lparr>Tag = Name result, SHA = Digest img, Timestamp = timestamp,
      OS = Image.OS img, Architecture = Image.Architecture img\<rparr>"

text \<open>
  The emissions of a result: one ImageTag for each of its images with a non-empty digest,
  in order. The emissions of a page are those of its results, in order.
\<close>

definition resultTags :: "('w, 't) env \<Rightarrow> Result \<Rightarrow> 't ImageTag list" where
  "resultTags env result =
     (case parseTime env (Result.Timestamp result) of
        Inl err \<Rightarrow> []
      | Inr timestamp \<Rightarrow>
          map (imageTagOf result timestamp) (filter (\<lambda>img. Digest img \<noteq> []) (Images result)))"

definition pageTags :: "('w, 't) env \<Rightarrow> TagResponse \<Rightarrow> 't ImageTag list" where
  "pageTags env page = concat (map (resultTags env) (Results page))"

text \<open>The number of pairs of a result of the page and an image of it with a non-empty digest.\<close>

definition pagePairs :: "TagResponse \<Rightarrow> nat" where
  "pagePairs page =
     sum_list (map (\<lambda>result. length (filter (\<lambda>img. Digest img \<noteq> []) (Images result)))
                   (Results page))"

text \<open>A result is readable when it has no images or its timestamp parses.\<close>

definition timestampOK :: "('w, 't) env \<Rightarrow> Result \<Rightarrow> bool" where
  "timestampOK env result =
     (Images result = [] \<or> \<not> isl (parseTime env (Result.Timestamp result)))"

definition timestampsOK :: "('w, 't) env \<Rightarrow> TagResponse \<Rightarrow> bool" where
  "timestampsOK env page = list_all (timestampOK env) (Results page)"

text \<open>
  Following the continuation links: started at the URL \<open>u\<close> in state \<open>st\<close>, the requests
  of \<^verbatim>\<open>doRequest\<close> are answered by the pages \<open>ps\<close>, one after the other, each page's
  \<^verbatim>\<open>next\<close> being the URL of the request after it. The result is the URL and the state
  after the last of them.
\<close>

fun follow ::
  "('w, 't) env \<Rightarrow> Client \<Rightarrow> 'w net \<Rightarrow> string \<Rightarrow> TagResponse list \<Rightarrow> (string \<times> 'w net) option" where
  "follow env c st u [] = Some (u, st)"
| "follow env c st u (p # ps) =
     (if u = [] then None
      else (case doRequest env c st u of
              (Inl err, st') \<Rightarrow> None
            | (Inr response, st') \<Rightarrow>
                if response = p then follow env c st' (Next p) ps else None))"

text \<open>The authorization header of the client: none without a token.\<close>

definition authHeader :: "Client \<Rightarrow> (string \<times> string) list" where
  "authHeader c =
     (if JWT (Options c) = [] then [] else [(''Authorization'', ''JWT '' @ JWT (Options c))])"

subsection \<open>A registry to run the client against\<close>

text \<open>
  A small environment on which the definitions are evaluated: a registry with a repository
  of two pages, one whose only result has no images and a timestamp that is no date, one
  whose result has an image and such a timestamp, a path that answers 404 with a JSON body,
  and a login endpoint. Time is in seconds since 1970; the world counts the round trips.
\<close>

definition nginx_page1_body :: string where
  \<open>nginx_page1_body = ''{"next":"https://registry.hub.docker.com/v2/repositories/library/nginx/tags?page=2","results":[{"name":"v1","last_updated":"2023-01-01T00:00:00Z","images":[{"digest":"sha256:aaa","os":"linux","Architecture":"amd64"},{"digest":"","os":"linux","Architecture":"arm64"}]},{"name":"none","last_updated":"","images":[]}]}''\<close>

definition nginx_page1 :: TagResponse where
  "nginx_page1 =
     \<lparr>Next = ''https://registry.hub.docker.com/v2/repositories/library/nginx/tags?page=2'',
      Results =
        [\<lparr>Name = ''v1'', Result.Timestamp = ''2023-01-01T00:00:00Z'',
          Images = [\<lparr>Digest = ''sha256:aaa'', Image.OS = ''linux'', Image.Architecture = ''amd64''\<rparr>,
                    \<lparr>Digest = [], Image.OS = ''linux'', Image.Architecture = ''arm64''\<rparr>]\<rparr>,
         \<lparr>Name = ''none'', Result.Timestamp = [], Images = []\<rparr>]\<rparr>"

definition nginx_page2_body :: string where
  \<open>nginx_page2_body = ''{"next":"","results":[{"name":"v2","last_updated":"2023-02-01T00:00:00Z","images":[{"digest":"sha256:bbb","os":"linux","Architecture":"amd64"}]}]}''\<close>

definition nginx_page2 :: TagResponse where
  "nginx_page2 =
     \<lparr>Next = [],
      Results =
        [\<lparr>Name = ''v2'', Result.Timestamp = ''2023-02-01T00:00:00Z'',
          Images = [\<lparr>Digest = ''sha256:bbb'', Image.OS = ''linux'', Image.Architecture = ''amd64''\<rparr>]\<rparr>]\<rparr>"

definition stale_body :: string where
  \<open>stale_body = ''{"next":"","results":[{"name":"old","last_updated":"yesterday","images":[]}]}''\<close>

definition stale_page :: TagResponse where
  "stale_page =
     \<lparr>Next = [], Results = [\<lparr>Name = ''old'', Result.Timestamp = ''yesterday'', Images = []\<rparr>]\<rparr>"

definition broken_body :: string where
  \<open>broken_body = ''{"next":"","results":[{"name":"bad","last_updated":"yesterday","images":[{"digest":"sha256:ccc","os":"linux","Architecture":"amd64"}]}]}''\<close>

definition broken_page :: TagResponse where
  "broken_page =
     \<lparr>Next = [],
      Results =
        [\<lparr>Name = ''bad'', Result.Timestamp = ''yesterday'',
          Images = [\<lparr>Digest = ''sha256:ccc'', Image.OS = ''linux'', Image.Architecture = ''amd64''\<rparr>]\<rparr>]\<rparr>"

definition notfound_body :: string where
  \<open>notfound_body = ''{"message":"object not found"}''\<close>

definition demo_parseURL :: "string \<Rightarrow> error + url" where
  "demo_parseURL s =
     (if CHR '' '' \<in> set s then Inl ''invalid character in URL''
      else if HasPrefix s ''https://'' then Inr \<lparr>Scheme = ''https'', Rest = drop 8 s\<rparr>
      else if HasPrefix s ''http://'' then Inr \<lparr>Scheme = ''http'', Rest = drop 7 s\<rparr>
      else Inr \<lparr>Scheme = [], Rest = s\<rparr>)"

definition demo_routes :: "(string \<times> response) list" where
  "demo_routes =
     [(''registry.hub.docker.com/v2/repositories/library/nginx/tags'',
         \<lparr>StatusCode = 200, Body = Inr nginx_page1_body\<rparr>),
      (''registry.hub.docker.com/v2/repositories/library/nginx/tags?page=2'',
         \<lparr>StatusCode = 200, Body = Inr nginx_page2_body\<rparr>),
      (''registry.hub.docker.com/v2/repositories/library/stale/tags'',
         \<lparr>StatusCode = 200, Body = Inr stale_body\<rparr>),
      (''registry.hub.docker.com/v2/repositories/library/broken/tags'',
         \<lparr>StatusCode = 200, Body = Inr broken_body\<rparr>),
      (''registry.hub.docker.com/v2/repositories/library/missing/tags'',
         \<lparr>StatusCode = 404, Body = Inr notfound_body\<rparr>)]"

definition demo_Do :: "nat \<Rightarrow> request \<Rightarrow> (error + response) \<times> nat" where
  \<open>demo_Do w req =
     (if Method req = ''POST'' \<and> Rest (URL req) = ''hub.docker.com/v2/users/login/''
      then (if ReqBody req = loginBody ''user'' ''secret''
            then (Inr \<lparr>StatusCode = 200, Body = Inr ''{"token":"abc"}''\<rparr>, Suc w)
            else (Inr \<lparr>StatusCode = 401, Body = Inr ''{"detail":"Incorrect authentication credentials"}''\<rparr>,
                  Suc w))
      else if Method req = ''GET''
      then (case map_of demo_routes (Rest (URL req)) of
              None \<Rightarrow> (Inl ''dial tcp: no such host'', Suc w)
            | Some resp \<Rightarrow> (Inr resp, Suc w))
      else (Inl ''dial tcp: no such host'', Suc w))\<close>

definition demo_unmarshalTagResponse :: "string \<Rightarrow> error + TagResponse" where
  "demo_unmarshalTagResponse body =
     (case map_of [(nginx_page1_body, nginx_page1), (nginx_page2_body, nginx_page2),
                   (stale_body, stale_page), (broken_body, broken_page),
                   (notfound_body, \<lparr>Next = [], Results = []\<rparr>)] body of
        None \<Rightarrow> Inl ''invalid character looking for beginning of value''
      | Some page \<Rightarrow> Inr page)"

definition demo_unmarshalAuthResponse :: "string \<Rightarrow> error + AuthResponse" where
  \<open>demo_unmarshalAuthResponse body =
     (if body = ''{"token":"abc"}'' then Inr \<lparr>Token = ''abc''\<rparr>
      else Inl ''invalid character looking for beginning of value'')\<close>

definition demo_parseTime :: "string \<Rightarrow> error + int" where
  "demo_parseTime s =
     (case map_of [(''2023-01-01T00:00:00Z'', 1672531200), (''2023-02-01T00:00:00Z'', 1675209600)] s of
        None \<Rightarrow> Inl ''cannot parse as RFC3339''
      | Some t \<Rightarrow> Inr t)"

definition demo_env :: "(nat, int) env" where
  "demo_env =
     \<lparr>parseURL = demo_parseURL, Do = demo_Do,
      unmarshalTagResponse = demo_unmarshalTagResponse,
      unmarshalAuthResponse = demo_unmarshalAuthResponse,
      parseTime = demo_parseTime\<rparr>"

definition demo_options :: "string \<Rightarrow> string \<Rightarrow> string \<Rightarrow> Options" where
  "demo_options username password token =
     \<lparr>LoginURL = ''https://hub.docker.com/v2/users/login/'', Username = username,
      Password = password, JWT = token\<rparr>"

definition demo_client :: "string \<Rightarrow> Client" where
  "demo_client token = \<lparr>Timeout = 5, Options = demo_options [] [] token\<rparr>"

definition demo_net :: "nat net" where
  "demo_net = \<lparr>World = 0, Sent = []\<rparr>"

text \<open>What the runs below are expected to give: the requests seen by the registry and the tags.\<close>

definition tagRequest :: "string \<Rightarrow> string \<Rightarrow> request" where
  "tagRequest token path =
     \<lparr>Method = ''GET'',
      URL = \<lparr>Scheme = ''https'', Rest = ''registry.hub.docker.com/v2/repositories/'' @ path\<rparr>,
      Header = (if token = [] then [] else [(''Authorization'', ''JWT '' @ token)]),
      ReqBody = []\<rparr>"

definition nginx_net :: "string \<Rightarrow> nat net" where
  "nginx_net token =
     \<lparr>World = 2,
      Sent = [tagRequest token ''library/nginx/tags'', tagRequest token ''library/nginx/tags?page=2'']\<rparr>"

definition nginx_tags :: "int ImageTag list" where
  "nginx_tags =
     [\<lparr>Tag = ''v1'', SHA = ''sha256:aaa'', Timestamp = 1672531200,
       OS = ''linux'', Architecture = ''amd64''\<rparr>,
      \<lparr>Tag = ''v2'', SHA = ''sha256:bbb'', Timestamp = 1675209600,
       OS = ''linux'', Architecture = ''amd64''\<rparr>]"

definition loginRequest :: "string \<Rightarrow> string \<Rightarrow> request" where
  "loginRequest username password =
     \<lparr>Method = ''POST'', URL = \<lparr>Scheme = ''https'', Rest = ''hub.docker.com/v2/users/login/''\<rparr>,
      Header = [(''Content-Type'', ''application/json'')],
      ReqBody = loginBody username password\<rparr>"

section \<open>Properties\<close>

subsection \<open>Prefixes, splitting and the repository path\<close>

lemma HasPrefix_iff: "HasPrefix s p \<longleftrightarrow> (\<exists>rest. s = p @ rest)"
proof
  assume "HasPrefix s p"
  then have "take (length p) s = p" by (simp add: HasPrefix_def)
  then have "s = p @ drop (length p) s" by (metis append_take_drop_id)
  then show "\<exists>rest. s = p @ rest" ..
next
  assume "\<exists>rest. s = p @ rest"
  then show "HasPrefix s p" by (auto simp: HasPrefix_def)
qed

lemma Split_not_Nil: "Split s sep \<noteq> []"
  by (induction s) (auto split: list.splits)

lemma length_Split: "length (Split s sep) = Suc (length (filter (\<lambda>x. x = sep) s))"
  by (induction s) (auto split: list.splits simp: Split_not_Nil)

lemma Split_single: "length (Split s sep) = 1 \<longleftrightarrow> sep \<notin> set s"
  by (auto simp: length_Split filter_empty_conv)

lemma repoPath_unfold:
  "repoPath imageURL =
     (let r1 = TrimPrefix imageURL imagePrefix; r2 = TrimPrefix r1 imagePrefixHub
      in if CHR ''/'' \<in> set r2 then r2 else ''library/'' @ r2)"
  using Split_single [of _ "CHR ''/''"] by (simp add: repoPath_def TrimPrefix_def Let_def)

subsection \<open>The loops of Tags\<close>

lemma imagesLoop_eq:
  "imagesLoop r ts imgs tags = tags @ map (imageTagOf r ts) (filter (\<lambda>img. Digest img \<noteq> []) imgs)"
  by (induction imgs arbitrary: tags) (simp_all add: imageTagOf_def)

lemma resultsLoop_ok:
  "list_all (timestampOK env) rs \<Longrightarrow>
   resultsLoop env rs tags = Inr (tags @ concat (map (resultTags env) rs))"
proof (induction rs arbitrary: tags)
  case Nil
  show ?case by simp
next
  case (Cons r rs)
  then have ok: "timestampOK env r" and rest: "list_all (timestampOK env) rs" by simp_all
  show ?case
  proof (cases "Images r = []")
    case True
    then have "resultTags env r = []" by (simp add: resultTags_def split: sum.splits)
    with True Cons.IH [OF rest] show ?thesis by simp
  next
    case False
    with ok obtain ts where ts: "parseTime env (Result.Timestamp r) = Inr ts"
      by (cases "parseTime env (Result.Timestamp r)") (auto simp: timestampOK_def)
    with False Cons.IH [OF rest] show ?thesis
      by (simp add: resultTags_def imagesLoop_eq)
  qed
qed

lemma resultsLoop_Inr:
  "resultsLoop env rs tags = Inr out \<Longrightarrow> list_all (timestampOK env) rs"
  by (induction rs arbitrary: tags) (auto simp: timestampOK_def split: if_splits sum.splits)

lemma resultsLoop_bad:
  "\<not> list_all (timestampOK env) rs \<Longrightarrow>
   \<exists>e. resultsLoop env rs tags = Inl (''failed to parse image timestamp: '' @ e)"
proof (induction rs arbitrary: tags)
  case Nil
  then show ?case by simp
next
  case (Cons r rs)
  show ?case
  proof (cases "timestampOK env r")
    case True
    with Cons.prems have "\<not> list_all (timestampOK env) rs" by simp
    from Cons.IH [OF this] show ?thesis
      by (auto split: sum.splits)
  next
    case False
    then show ?thesis by (auto simp: timestampOK_def split: sum.splits)
  qed
qed


lemma doRequest_Sent:
  "doRequest env c st u = (r, st') \<Longrightarrow>
   st' = st \<or> (\<exists>q. Sent st' = Sent st @ [q] \<and> Method q = ''GET'' \<and> Header q = authHeader c)"
  by (auto simp: doRequest_def NewRequest_def clientDo_def HeaderAdd_def authHeader_def Let_def
           split: sum.splits prod.splits if_splits)



lemma tagsLoop_Inr_follow_aux:
  "tagsLoop env c u tags st = Some y \<Longrightarrow>
   \<forall>out st'. y = (Inr out, st') \<longrightarrow>
     (\<exists>ps. follow env c st u ps = Some ([], st') \<and> list_all (timestampsOK env) ps \<and>
           out = tags @ concat (map (pageTags env) ps))"
proof (induction rule: tagsLoop.raw_induct [rotated 1, consumes 1])
  case (1 loop env c u tags st y)
  show ?case
  proof (intro allI impI)
    fix out st'
    assume y: "y = (Inr out, st')"
    show "\<exists>ps. follow env c st u ps = Some ([], st') \<and> list_all (timestampsOK env) ps \<and>
            out = tags @ concat (map (pageTags env) ps)"
    proof (cases "u = []")
      case True
      with 1(2) y have "out = tags" "st' = st" by simp_all
      with True have "follow env c st u [] = Some ([], st') \<and> list_all (timestampsOK env) [] \<and>
            out = tags @ concat (map (pageTags env) [])" by simp
      then show ?thesis by blast
    next
      case False
      with 1(2) y obtain p st1 tags1 where d: "doRequest env c st u = (Inr p, st1)"
        and r: "resultsLoop env (Results p) tags = Inr tags1"
        and l: "loop env c (Next p) tags1 st1 = Some (Inr out, st')"
        by (auto split: sum.splits prod.splits)
      from resultsLoop_Inr [OF r] have ok: "timestampsOK env p" by (simp add: timestampsOK_def)
      then have "resultsLoop env (Results p) tags = Inr (tags @ pageTags env p)"
        by (simp add: timestampsOK_def resultsLoop_ok pageTags_def)
      with r have t1: "tags1 = tags @ pageTags env p" by simp
      from 1(1) [OF l] obtain ps where ps: "follow env c st1 (Next p) ps = Some ([], st')"
        "list_all (timestampsOK env) ps" "out = tags1 @ concat (map (pageTags env) ps)" by blast
      have "follow env c st u (p # ps) = Some ([], st') \<and> list_all (timestampsOK env) (p # ps) \<and>
            out = tags @ concat (map (pageTags env) (p # ps))"
        using False d ps ok t1 by simp
      then show ?thesis by blast
    qed
  qed
qed

lemma tagsLoop_Inr_follow:
  "tagsLoop env c u tags st = Some (Inr out, st') \<Longrightarrow>
   \<exists>ps. follow env c st u ps = Some ([], st') \<and> list_all (timestampsOK env) ps \<and>
        out = tags @ concat (map (pageTags env) ps)"
  using tagsLoop_Inr_follow_aux [of env c u tags st "(Inr out, st')"] by blast

lemma tagsLoop_Sent:
  "tagsLoop env c u tags st = Some y \<Longrightarrow>
   \<exists>reqs. Sent (snd y) = Sent st @ reqs \<and>
          list_all (\<lambda>q. Method q = ''GET'' \<and> Header q = authHeader c) reqs"
proof (induction rule: tagsLoop.raw_induct [rotated 1, consumes 1])
  case (1 loop env c u tags st y)
  let ?ok = "list_all (\<lambda>q. Method q = ''GET'' \<and> Header q = authHeader c)"
  show ?case
  proof (cases "u = []")
    case True
    with 1(2) have "Sent (snd y) = Sent st @ [] \<and> ?ok []" by auto
    then show ?thesis by blast
  next
    case False
    obtain r st1 where d: "doRequest env c st u = (r, st1)" by (cases "doRequest env c st u")
    from doRequest_Sent [OF d] obtain qs where qs: "Sent st1 = Sent st @ qs" "?ok qs"
      by (cases "st1 = st") auto
    have "snd y = st1 \<or> (\<exists>p tags1. loop env c p tags1 st1 = Some y)"
    proof (cases r)
      case (Inl e)
      with 1(2) False d show ?thesis by auto
    next
      case (Inr p)
      show ?thesis
      proof (cases "resultsLoop env (Results p) tags")
        case (Inl e)
        with 1(2) False d Inr show ?thesis by auto
      next
        case r2: (Inr tags1)
        with 1(2) False d Inr have "loop env c (Next p) tags1 st1 = Some y" by simp
        then show ?thesis by blast
      qed
    qed
    then show ?thesis
    proof
      assume "snd y = st1"
      with qs have "Sent (snd y) = Sent st @ qs \<and> ?ok qs" by simp
      then show ?thesis by blast
    next
      assume "\<exists>p tags1. loop env c p tags1 st1 = Some y"
      then obtain p tags1 where l: "loop env c p tags1 st1 = Some y" by blast
      from 1(1) [OF l] obtain reqs where "Sent (snd y) = Sent st1 @ reqs" "?ok reqs" by blast
      with qs have "Sent (snd y) = Sent st @ (qs @ reqs) \<and> ?ok (qs @ reqs)" by simp
      then show ?thesis by blast
    qed
  qed
qed

lemma resultTags_SHA: "t \<in> set (resultTags env r) \<Longrightarrow> SHA t \<noteq> []"
  by (auto simp: resultTags_def imageTagOf_def split: sum.splits)

lemma pageTags_SHA: "list_all (\<lambda>t. SHA t \<noteq> []) (pageTags env p)"
  by (auto simp: pageTags_def list_all_iff dest: resultTags_SHA)

lemma length_resultTags:
  "timestampOK env r \<Longrightarrow>
   length (resultTags env r) = length (filter (\<lambda>img. Digest img \<noteq> []) (Images r))"
  by (auto simp: resultTags_def timestampOK_def split: sum.splits)

lemma length_pageTags: "timestampsOK env p \<Longrightarrow> length (pageTags env p) = pagePairs p"
proof -
  have "list_all (timestampOK env) rs \<Longrightarrow>
        length (concat (map (resultTags env) rs)) =
        sum_list (map (\<lambda>r. length (filter (\<lambda>img. Digest img \<noteq> []) (Images r))) rs)" for rs
    by (induction rs) (simp_all add: length_resultTags)
  then show "timestampsOK env p \<Longrightarrow> length (pageTags env p) = pagePairs p"
    by (simp add: timestampsOK_def pageTags_def pagePairs_def)
qed

lemma tagsLoop_bad_page:
  "follow env c st u (ps @ [p]) = Some (u', st') \<Longrightarrow> \<not> timestampsOK env p \<Longrightarrow>
   \<exists>e st''. tagsLoop env c u tags st = Some (Inl e, st'')"
proof (induction ps arbitrary: st u tags)
  case Nil
  then obtain d: "doRequest env c st u = (Inr p, st')" and u: "u \<noteq> []"
    by (auto split: if_splits sum.splits prod.splits)
  from Nil.prems(2) obtain e where "resultsLoop env (Results p) tags = Inl e"
    using resultsLoop_bad [of env "Results p" tags] by (auto simp: timestampsOK_def)
  with d u have "tagsLoop env c u tags st = Some (Inl e, st')"
    by (subst tagsLoop.simps) simp
  then show ?case by blast
next
  case (Cons p1 ps)
  from Cons.prems(1) obtain st1 where u: "u \<noteq> []" and d: "doRequest env c st u = (Inr p1, st1)"
    and f: "follow env c st1 (Next p1) (ps @ [p]) = Some (u', st')"
    by (auto split: if_splits sum.splits prod.splits)
  show ?case
  proof (cases "resultsLoop env (Results p1) tags")
    case (Inl e)
    with d u have "tagsLoop env c u tags st = Some (Inl e, st1)"
      by (subst tagsLoop.simps) simp
    then show ?thesis by blast
  next
    case (Inr tags1)
    with d u have "tagsLoop env c u tags st = tagsLoop env c (Next p1) tags1 st1"
      by (subst tagsLoop.simps) simp
    with Cons.IH [OF f Cons.prems(2), of tags1] show ?thesis by simp
  qed
qed

lemma tagsLoop_first_bad_page:
  "follow env c st u (ps @ [p]) = Some (u', st') \<Longrightarrow> list_all (timestampsOK env) ps \<Longrightarrow>
   \<not> timestampsOK env p \<Longrightarrow>
   \<exists>e. tagsLoop env c u tags st = Some (Inl (''failed to parse image timestamp: '' @ e), st')"
proof (induction ps arbitrary: st u tags)
  case Nil
  then obtain d: "doRequest env c st u = (Inr p, st')" and u: "u \<noteq> []"
    by (auto split: if_splits sum.splits prod.splits)
  from Nil.prems(3) obtain e where
    "resultsLoop env (Results p) tags = Inl (''failed to parse image timestamp: '' @ e)"
    using resultsLoop_bad [of env "Results p" tags] by (auto simp: timestampsOK_def)
  with d u have "tagsLoop env c u tags st = Some (Inl (''failed to parse image timestamp: '' @ e), st')"
    by (subst tagsLoop.simps) simp
  then show ?case by blast
next
  case (Cons p1 ps)
  from Cons.prems(1) obtain st1 where u: "u \<noteq> []" and d: "doRequest env c st u = (Inr p1, st1)"
    and f: "follow env c st1 (Next p1) (ps @ [p]) = Some (u', st')"
    by (auto split: if_splits sum.splits prod.splits)
  from Cons.prems(2) have "timestampsOK env p1" and rest: "list_all (timestampsOK env) ps"
    by simp_all
  then have ok: "list_all (timestampOK env) (Results p1)" by (simp add: timestampsOK_def)
  have "tagsLoop env c u tags st = tagsLoop env c (Next p1) (tags @ pageTags env p1) st1"
    using u d resultsLoop_ok [OF ok] by (subst tagsLoop.simps) (simp add: pageTags_def)
  with Cons.IH [OF f rest Cons.prems(3)] show ?case by simp
qed

subsection \<open>The claims\<close>

text \<open>
  Claim C1. For every decoded page, the loop over its results either stops at a timestamp
  that does not parse or appends exactly the emissions of the page: for every result, one
  ImageTag for each of its images with a non-empty digest (none for a result without images,
  none for an image with an empty digest, the other images of the same result kept), as
  many as there are such pairs. A resolution that returns tags has fetched a sequence of
  pages, the tags are the emissions of these pages in order, and every returned ImageTag
  has a non-empty digest.
\<close>

theorem Tags_one_tag_per_digest:
  "(case resultsLoop env (Results page) acc of
      Inl err \<Rightarrow> \<not> timestampsOK env page
    | Inr out \<Rightarrow> out = acc @ pageTags env page \<and> length (pageTags env page) = pagePairs page) \<and>
   list_all (\<lambda>t. SHA t \<noteq> []) (pageTags env page) \<and>
   (Tags env c st imageURL = Some (Inr tags, st') \<longrightarrow>
    (\<exists>pages. follow env c st (repoURL (repoPath imageURL)) pages = Some ([], st') \<and>
       tags = concat (map (pageTags env) pages) \<and>
       length tags = sum_list (map pagePairs pages) \<and>
       list_all (\<lambda>t. SHA t \<noteq> []) tags \<and>
       (\<forall>page \<in> set pages. \<forall>result \<in> set (Results page).
          \<exists>timestamp. resultTags env result =
            map (imageTagOf result timestamp) (filter (\<lambda>img. Digest img \<noteq> []) (Images result)))))"
proof (intro conjI impI)
  show "case resultsLoop env (Results page) acc of
      Inl err \<Rightarrow> \<not> timestampsOK env page
    | Inr out \<Rightarrow> out = acc @ pageTags env page \<and> length (pageTags env page) = pagePairs page"
  proof (cases "timestampsOK env page")
    case True
    then have "resultsLoop env (Results page) acc = Inr (acc @ pageTags env page)"
      by (simp add: timestampsOK_def resultsLoop_ok pageTags_def)
    with True show ?thesis by (simp add: length_pageTags)
  next
    case False
    then obtain e where "resultsLoop env (Results page) acc = Inl e"
      using resultsLoop_bad [of env "Results page" acc] by (auto simp: timestampsOK_def)
    with False show ?thesis by simp
  qed
next
  show "list_all (\<lambda>t. SHA t \<noteq> []) (pageTags env page)" by (rule pageTags_SHA)
next
  assume "Tags env c st imageURL = Some (Inr tags, st')"
  then have "tagsLoop env c (repoURL (repoPath imageURL)) [] st = Some (Inr tags, st')"
    by (simp add: Tags_def)
  from tagsLoop_Inr_follow [OF this] obtain pages
    where f: "follow env c st (repoURL (repoPath imageURL)) pages = Some ([], st')"
      and ok: "list_all (timestampsOK env) pages"
      and t: "tags = concat (map (pageTags env) pages)" by auto
  have len: "length (concat (map (pageTags env) ps)) = sum_list (map pagePairs ps)"
    if "list_all (timestampsOK env) ps" for ps
    using that by (induction ps) (simp_all add: length_pageTags)
  have sha: "list_all (\<lambda>t. SHA t \<noteq> []) (concat (map (pageTags env) ps))" for ps
    using pageTags_SHA [of env] by (induction ps) simp_all
  have each: "\<exists>timestamp. resultTags env result =
          map (imageTagOf result timestamp) (filter (\<lambda>img. Digest img \<noteq> []) (Images result))"
    if "page \<in> set pages" "result \<in> set (Results page)" for page result
  proof -
    from that ok have "timestampOK env result"
      by (auto simp: list_all_iff timestampsOK_def)
    then show ?thesis
      by (cases "parseTime env (Result.Timestamp result)")
         (auto simp: timestampOK_def resultTags_def)
  qed
  from f t len [OF ok] sha [of pages] each
  show "\<exists>pages. follow env c st (repoURL (repoPath imageURL)) pages = Some ([], st') \<and>
       tags = concat (map (pageTags env) pages) \<and>
       length tags = sum_list (map pagePairs pages) \<and>
       list_all (\<lambda>t. SHA t \<noteq> []) tags \<and>
       (\<forall>page \<in> set pages. \<forall>result \<in> set (Results page).
          \<exists>timestamp. resultTags env result =
            map (imageTagOf result timestamp) (filter (\<lambda>img. Digest img \<noteq> []) (Images result)))"
    by blast
qed

text \<open>The repository of two pages: two tags from four results and images.\<close>

theorem Tags_one_tag_per_digest_witness:
  "resultsLoop demo_env (Results nginx_page1) [] = Inr (take 1 nginx_tags) \<and>
   pageTags demo_env nginx_page1 = take 1 nginx_tags \<and> pagePairs nginx_page1 = 1 \<and>
   Tags demo_env (demo_client []) demo_net ''nginx'' = Some (Inr nginx_tags, nginx_net []) \<and>
   (\<exists>pages. follow demo_env (demo_client []) demo_net (repoURL (repoPath ''nginx'')) pages
              = Some ([], nginx_net []) \<and>
      nginx_tags = concat (map (pageTags demo_env) pages) \<and>
      length nginx_tags = sum_list (map pagePairs pages) \<and>
      list_all (\<lambda>t. SHA t \<noteq> []) nginx_tags)"
proof -
  have page: "resultsLoop demo_env (Results nginx_page1) [] = Inr (take 1 nginx_tags)"
    by code_simp
  have run: "Tags demo_env (demo_client []) demo_net ''nginx'' = Some (Inr nginx_tags, nginx_net [])"
    by code_simp
  note inst = Tags_one_tag_per_digest [of demo_env nginx_page1 "[]" "demo_client []" demo_net
      "''nginx''" nginx_tags "nginx_net []"]
  from inst [THEN conjunct1] page
  have "take 1 nginx_tags = pageTags demo_env nginx_page1 \<and>
      length (pageTags demo_env nginx_page1) = pagePairs nginx_page1" by simp
  then have a: "pageTags demo_env nginx_page1 = take 1 nginx_tags"
    and b: "pagePairs nginx_page1 = length (pageTags demo_env nginx_page1)" by simp_all
  from b have "pagePairs nginx_page1 = 1" unfolding a by (simp add: nginx_tags_def)
  with a have "pageTags demo_env nginx_page1 = take 1 nginx_tags \<and> pagePairs nginx_page1 = 1"
    by simp
  moreover from inst [THEN conjunct2, THEN conjunct2] run
  have "\<exists>pages. follow demo_env (demo_client []) demo_net (repoURL (repoPath ''nginx'')) pages
              = Some ([], nginx_net []) \<and>
      nginx_tags = concat (map (pageTags demo_env) pages) \<and>
      length nginx_tags = sum_list (map pagePairs pages) \<and>
      list_all (\<lambda>t. SHA t \<noteq> []) nginx_tags" by blast
  ultimately show ?thesis using page run by blast
qed



text \<open>
  Claim C3, as stated, fails: a result without images is skipped before its timestamp is
  looked at. The registry below delivers one page whose only result has no images and the
  timestamp \<^verbatim>\<open>yesterday\<close>; the resolution returns the empty list and no error.
\<close>

theorem Tags_stale_counterexample:
  "Results stale_page = [\<lparr>Name = ''old'', Result.Timestamp = ''yesterday'', Images = []\<rparr>] \<and>
   parseTime demo_env ''yesterday'' = Inl ''cannot parse as RFC3339'' \<and>
   follow demo_env (demo_client []) demo_net (repoURL (repoPath ''stale'')) [stale_page]
     = Some ([], \<lparr>World = 1, Sent = [tagRequest [] ''library/stale/tags'']\<rparr>) \<and>
   Tags demo_env (demo_client []) demo_net ''stale''
     = Some (Inr [], \<lparr>World = 1, Sent = [tagRequest [] ''library/stale/tags'']\<rparr>)"
  by code_simp

text \<open>
  Claim C3, amended. When a page that the resolution reaches holds a result with at least
  one image whose \<^verbatim>\<open>last_updated\<close> does not parse, the resolution returns an error and no
  tags. When the pages before it are readable, the error is the timestamp error and the
  state is the one right after that page was fetched: no further request is made.
\<close>

theorem Tags_aborts_on_bad_timestamp:
  "follow env c st (repoURL (repoPath imageURL)) (pages @ [page]) = Some (u', st') \<Longrightarrow>
   result \<in> set (Results page) \<Longrightarrow> Images result \<noteq> [] \<Longrightarrow>
   parseTime env (Result.Timestamp result) = Inl err \<Longrightarrow>
   (\<exists>e st''. Tags env c st imageURL = Some (Inl e, st'')) \<and>
   (list_all (timestampsOK env) pages \<longrightarrow>
      (\<exists>e. Tags env c st imageURL = Some (Inl (''failed to parse image timestamp: '' @ e), st')))"
proof -
  assume f: "follow env c st (repoURL (repoPath imageURL)) (pages @ [page]) = Some (u', st')"
    and r: "result \<in> set (Results page)" "Images result \<noteq> []"
      "parseTime env (Result.Timestamp result) = Inl err"
  from r have "\<not> timestampOK env result" by (simp add: timestampOK_def)
  with r(1) have bad: "\<not> timestampsOK env page" by (auto simp: timestampsOK_def list_all_iff)
  from tagsLoop_bad_page [OF f bad, of "[]"] tagsLoop_first_bad_page [OF f _ bad, of "[]"]
  show ?thesis by (simp add: Tags_def)
qed

text \<open>A page whose result has an image and the timestamp \<^verbatim>\<open>yesterday\<close>.\<close>

theorem Tags_aborts_on_bad_timestamp_witness:
  "follow demo_env (demo_client []) demo_net (repoURL (repoPath ''broken'')) ([] @ [broken_page])
     = Some ([], \<lparr>World = 1, Sent = [tagRequest [] ''library/broken/tags'']\<rparr>) \<and>
   Tags demo_env (demo_client []) demo_net ''broken''
     = Some (Inl ''failed to parse image timestamp: cannot parse as RFC3339'',
             \<lparr>World = 1, Sent = [tagRequest [] ''library/broken/tags'']\<rparr>)"
proof -
  let ?r = "\<lparr>Name = ''bad'', Result.Timestamp = ''yesterday'',
          Images = [\<lparr>Digest = ''sha256:ccc'', Image.OS = ''linux'', Image.Architecture = ''amd64''\<rparr>]\<rparr>"
  have f: "follow demo_env (demo_client []) demo_net (repoURL (repoPath ''broken'')) ([] @ [broken_page])
     = Some ([], \<lparr>World = 1, Sent = [tagRequest [] ''library/broken/tags'']\<rparr>)"
    by code_simp
  have r: "?r \<in> set (Results broken_page)" by (simp add: broken_page_def)
  have i: "Images ?r \<noteq> []" by simp
  have p: "parseTime demo_env (Result.Timestamp ?r) = Inl ''cannot parse as RFC3339''"
    by code_simp
  have ok: "list_all (timestampsOK demo_env) []" by simp
  from Tags_aborts_on_bad_timestamp [OF f r i p] ok
  have "\<exists>e. Tags demo_env (demo_client []) demo_net ''broken''
     = Some (Inl (''failed to parse image timestamp: '' @ e),
             \<lparr>World = 1, Sent = [tagRequest [] ''library/broken/tags'']\<rparr>)" by blast
  moreover have "Tags demo_env (demo_client []) demo_net ''broken''
     = Some (Inl ''failed to parse image timestamp: cannot parse as RFC3339'',
             \<lparr>World = 1, Sent = [tagRequest [] ''library/broken/tags'']\<rparr>)" by code_simp
  ultimately show ?thesis using f by simp
qed

text \<open>
  Claim C4 does not hold of the code: the login body is the template with the credentials
  put in as they are. For the username \<^verbatim>\<open>a"b\<close> the body sent is not the JSON encoding
  of the credentials, and two different pairs of credentials give the same body.
\<close>

theorem loginBody_interpolates_raw:
  \<open>loginBody ''a"b'' ''p'' = ''{"username": "a"b", "password": "p"}'' \<and>
   spec_loginBody ''a"b'' ''p'' = ''{"username": "a'' @ [CHR 0x5C] @ ''"b", "password": "p"}'' \<and>
   loginBody ''a"b'' ''p'' \<noteq> spec_loginBody ''a"b'' ''p'' \<and>
   map ReqBody (Sent (snd (basicAuthSetup demo_env (demo_options ''a"b'' ''p'' []) demo_net)))
     = [''{"username": "a"b", "password": "p"}''] \<and>
   loginBody ''a'' ''", "password": "b'' = loginBody ''a", "password": "'' ''b''\<close>
  by code_simp

text \<open>
  Claim C5. With a non-empty token and a non-empty username or password, \<^verbatim>\<open>New\<close> returns
  the configuration error and no client, and the state is unchanged: no request was sent.
\<close>

theorem New_conflict:
  "JWT opts \<noteq> [] \<Longrightarrow> Username opts \<noteq> [] \<or> Password opts \<noteq> [] \<Longrightarrow>
   New env opts st = (Inl ''cannot specify JWT as well as username/password'', st)"
  by (simp add: New_def)

theorem New_conflict_witness:
  "JWT (demo_options ''user'' [] ''tok'') \<noteq> [] \<and>
   Username (demo_options ''user'' [] ''tok'') \<noteq> [] \<and>
   New demo_env (demo_options ''user'' [] ''tok'') demo_net
     = (Inl ''cannot specify JWT as well as username/password'', demo_net) \<and>
   Sent demo_net = []"
proof -
  have j: "JWT (demo_options ''user'' [] ''tok'') \<noteq> []" by (simp add: demo_options_def)
  have u: "Username (demo_options ''user'' [] ''tok'') \<noteq> []"
    by (simp add: demo_options_def)
  then have "Username (demo_options ''user'' [] ''tok'') \<noteq> [] \<or>
      Password (demo_options ''user'' [] ''tok'') \<noteq> []" ..
  from New_conflict [OF j this, of demo_env demo_net] j u show ?thesis
    by (simp add: demo_net_def)
qed

text \<open>
  Claim C6. When the login endpoint answers with a status code and a body, \<^verbatim>\<open>basicAuthSetup\<close>
  returns, for status 200, the token of the decoded body or else the decoder's error, and
  for every other status an error whose message is the body.
\<close>

theorem basicAuthSetup_result:
  "parseURL env (LoginURL opts) = Inr parsed \<Longrightarrow>
   Do env (World st)
      \<lparr>Method = ''POST'', URL = parsed, Header = [(''Content-Type'', ''application/json'')],
       ReqBody = loginBody (Username opts) (Password opts)\<rparr>
     = (Inr \<lparr>StatusCode = code, Body = Inr body\<rparr>, w) \<Longrightarrow>
   fst (basicAuthSetup env opts st) =
     (if code = 200
      then (case unmarshalAuthResponse env body of
              Inl err \<Rightarrow> Inl err
            | Inr response \<Rightarrow> Inr (Token response))
      else Inl body)"
  by (simp add: basicAuthSetup_def NewRequest_def HeaderSet_def clientDo_def Let_def
           split: sum.splits)

text \<open>The login endpoint answers 200 with a token, and 401 with a message; \<^verbatim>\<open>New\<close> on both.\<close>

theorem basicAuthSetup_result_witness:
  \<open>fst (basicAuthSetup demo_env (demo_options ''user'' ''secret'' []) demo_net) = Inr ''abc'' \<and>
   fst (New demo_env (demo_options ''user'' ''secret'' []) demo_net)
     = Inr \<lparr>Timeout = 5, Options = demo_options ''user'' ''secret'' ''abc''\<rparr> \<and>
   fst (basicAuthSetup demo_env (demo_options ''user'' ''wrong'' []) demo_net)
     = Inl ''{"detail":"Incorrect authentication credentials"}'' \<and>
   fst (New demo_env (demo_options ''user'' ''wrong'' []) demo_net)
     = Inl ''failed to setup auth: {"detail":"Incorrect authentication credentials"}''\<close>
proof -
  let ?u = "\<lparr>Scheme = ''https'', Rest = ''hub.docker.com/v2/users/login/''\<rparr>"
  have p: "parseURL demo_env (LoginURL (demo_options a b [])) = Inr ?u" for a b
    by (simp add: demo_env_def demo_options_def demo_parseURL_def HasPrefix_def)
  have d1: \<open>Do demo_env (World demo_net)
      \<lparr>Method = ''POST'', URL = ?u, Header = [(''Content-Type'', ''application/json'')],
       ReqBody = loginBody (Username (demo_options ''user'' ''secret'' []))
                   (Password (demo_options ''user'' ''secret'' []))\<rparr>
     = (Inr \<lparr>StatusCode = 200, Body = Inr ''{"token":"abc"}''\<rparr>, 1)\<close>
    by (simp add: demo_env_def demo_options_def demo_Do_def demo_net_def)
  have d2: \<open>Do demo_env (World demo_net)
      \<lparr>Method = ''POST'', URL = ?u, Header = [(''Content-Type'', ''application/json'')],
       ReqBody = loginBody (Username (demo_options ''user'' ''wrong'' []))
                   (Password (demo_options ''user'' ''wrong'' []))\<rparr>
     = (Inr \<lparr>StatusCode = 401, Body = Inr ''{"detail":"Incorrect authentication credentials"}''\<rparr>, 1)\<close>
    by (simp add: demo_env_def demo_options_def demo_Do_def demo_net_def loginBody_def)
  have a: \<open>unmarshalAuthResponse demo_env ''{"token":"abc"}'' = Inr \<lparr>Token = ''abc''\<rparr>\<close>
    by (simp add: demo_env_def demo_unmarshalAuthResponse_def)
  have n1: "fst (New demo_env (demo_options ''user'' ''secret'' []) demo_net)
     = Inr \<lparr>Timeout = 5, Options = demo_options ''user'' ''secret'' ''abc''\<rparr>"
    by code_simp
  have n2: \<open>fst (New demo_env (demo_options ''user'' ''wrong'' []) demo_net)
     = Inl ''failed to setup auth: {"detail":"Incorrect authentication credentials"}''\<close>
    by code_simp
  from basicAuthSetup_result [OF p d1] basicAuthSetup_result [OF p d2] a n1 n2
  show ?thesis by simp
qed

text \<open>
  Claim C7. Every request that \<^verbatim>\<open>doRequest\<close> sends, and so every request sent during a
  resolution, carries the single header \<^verbatim>\<open>Authorization: JWT <token>\<close> when the client's
  token is non-empty, and no header when it is empty.
\<close>

theorem tag_requests_authorization:
  "(doRequest env c st u = (r, st1) \<longrightarrow>
      st1 = st \<or> (\<exists>q. Sent st1 = Sent st @ [q] \<and> Header q = authHeader c)) \<and>
   (Tags env c st imageURL = Some (res, st') \<longrightarrow>
      (\<exists>reqs. Sent st' = Sent st @ reqs \<and> list_all (\<lambda>q. Header q = authHeader c) reqs))"
proof (intro conjI impI)
  assume "doRequest env c st u = (r, st1)"
  from doRequest_Sent [OF this]
  show "st1 = st \<or> (\<exists>q. Sent st1 = Sent st @ [q] \<and> Header q = authHeader c)" by blast
next
  assume "Tags env c st imageURL = Some (res, st')"
  then have "tagsLoop env c (repoURL (repoPath imageURL)) [] st = Some (res, st')"
    by (simp add: Tags_def)
  from tagsLoop_Sent [OF this] obtain reqs where "Sent st' = Sent st @ reqs"
    "list_all (\<lambda>q. Method q = ''GET'' \<and> Header q = authHeader c) reqs" by auto
  then have "Sent st' = Sent st @ reqs \<and> list_all (\<lambda>q. Header q = authHeader c) reqs"
    by (simp add: list_all_iff)
  then show "\<exists>reqs. Sent st' = Sent st @ reqs \<and> list_all (\<lambda>q. Header q = authHeader c) reqs"
    by blast
qed

text \<open>The same resolution with the token \<^verbatim>\<open>abc\<close> and without a token.\<close>

theorem tag_requests_authorization_witness:
  "Tags demo_env (demo_client ''abc'') demo_net ''nginx'' = Some (Inr nginx_tags, nginx_net ''abc'') \<and>
   map Header (Sent (nginx_net ''abc'')) = [[(''Authorization'', ''JWT abc'')], [(''Authorization'', ''JWT abc'')]] \<and>
   Tags demo_env (demo_client []) demo_net ''nginx'' = Some (Inr nginx_tags, nginx_net []) \<and>
   map Header (Sent (nginx_net [])) = [[], []] \<and>
   (\<exists>reqs. Sent (nginx_net ''abc'') = Sent demo_net @ reqs \<and>
      list_all (\<lambda>q. Header q = authHeader (demo_client ''abc'')) reqs) \<and>
   (\<exists>reqs. Sent (nginx_net []) = Sent demo_net @ reqs \<and>
      list_all (\<lambda>q. Header q = authHeader (demo_client [])) reqs)"
proof -
  have r1: "Tags demo_env (demo_client ''abc'') demo_net ''nginx'' = Some (Inr nginx_tags, nginx_net ''abc'')"
    by code_simp
  have r2: "Tags demo_env (demo_client []) demo_net ''nginx'' = Some (Inr nginx_tags, nginx_net [])"
    by code_simp
  have h1: "map Header (Sent (nginx_net ''abc'')) = [[(''Authorization'', ''JWT abc'')], [(''Authorization'', ''JWT abc'')]]"
    by code_simp
  have h2: "map Header (Sent (nginx_net [])) = [[], []]"
    by code_simp
  from tag_requests_authorization [of demo_env "demo_client ''abc''" demo_net _ _ _ "''nginx''"
      "Inr nginx_tags" "nginx_net ''abc''"]
    tag_requests_authorization [of demo_env "demo_client []" demo_net _ _ _ "''nginx''"
      "Inr nginx_tags" "nginx_net []"]
    r1 r2 h1 h2
  show ?thesis by simp
qed

text \<open>
  Claim C8, as stated, fails: the two prefixes are stripped one after the other, so a
  reference that begins with \<^verbatim>\<open>docker.io/registry.hub.docker.com/\<close> loses both, where the
  specification strips the one prefix the reference begins with.
\<close>

theorem repoPath_counterexample:
  "repoPath ''docker.io/registry.hub.docker.com/nginx'' = ''library/nginx'' \<and>
   spec_repoPath ''docker.io/registry.hub.docker.com/nginx'' = ''registry.hub.docker.com/nginx'' \<and>
   repoPath ''docker.io/registry.hub.docker.com/nginx''
     \<noteq> spec_repoPath ''docker.io/registry.hub.docker.com/nginx''"
  by code_simp

text \<open>
  Claim C8, amended. Normalization strips a leading \<^verbatim>\<open>docker.io/\<close>, then strips a leading
  \<^verbatim>\<open>registry.hub.docker.com/\<close> from what is left, then prepends \<^verbatim>\<open>library/\<close> when
  the rest contains no separator and leaves it unchanged otherwise. For a reference that
  does not begin with \<^verbatim>\<open>docker.io/registry.hub.docker.com/\<close> this is the normalization of
  the specification.
\<close>

theorem repoPath_strips_in_turn:
  "repoPath imageURL =
     (let r1 = (if \<exists>rest. imageURL = imagePrefix @ rest
                then drop (length imagePrefix) imageURL else imageURL);
          r2 = (if \<exists>rest. r1 = imagePrefixHub @ rest
                then drop (length imagePrefixHub) r1 else r1)
      in if CHR ''/'' \<in> set r2 then r2 else ''library/'' @ r2) \<and>
   (\<not> HasPrefix imageURL (imagePrefix @ imagePrefixHub) \<longrightarrow>
      repoPath imageURL = spec_repoPath imageURL)"
proof
  show "repoPath imageURL =
     (let r1 = (if \<exists>rest. imageURL = imagePrefix @ rest
                then drop (length imagePrefix) imageURL else imageURL);
          r2 = (if \<exists>rest. r1 = imagePrefixHub @ rest
                then drop (length imagePrefixHub) r1 else r1)
      in if CHR ''/'' \<in> set r2 then r2 else ''library/'' @ r2)"
    by (simp add: repoPath_unfold TrimPrefix_def HasPrefix_iff)
next
  show "\<not> HasPrefix imageURL (imagePrefix @ imagePrefixHub) \<longrightarrow> repoPath imageURL = spec_repoPath imageURL"
  proof
    assume n: "\<not> HasPrefix imageURL (imagePrefix @ imagePrefixHub)"
    show "repoPath imageURL = spec_repoPath imageURL"
    proof (cases "HasPrefix imageURL imagePrefix")
      case True
      then obtain rest where r: "imageURL = imagePrefix @ rest" by (auto simp: HasPrefix_iff)
      with n have "\<not> HasPrefix rest imagePrefixHub" by (auto simp: HasPrefix_iff)
      with r True show ?thesis
        by (simp add: repoPath_unfold spec_repoPath_def TrimPrefix_def Let_def)
    next
      case False
      then show ?thesis
        by (simp add: repoPath_unfold spec_repoPath_def TrimPrefix_def Let_def)
    qed
  qed
qed

theorem repoPath_strips_in_turn_witness:
  "\<not> HasPrefix ''nginx'' (imagePrefix @ imagePrefixHub) \<and>
   repoPath ''nginx'' = ''library/nginx'' \<and>
   \<not> HasPrefix ''registry.hub.docker.com/myorg/myimage'' (imagePrefix @ imagePrefixHub) \<and>
   repoPath ''registry.hub.docker.com/myorg/myimage'' = ''myorg/myimage''"
proof -
  have h1: "\<not> HasPrefix ''nginx'' (imagePrefix @ imagePrefixHub)" by code_simp
  have h2: "\<not> HasPrefix ''registry.hub.docker.com/myorg/myimage'' (imagePrefix @ imagePrefixHub)"
    by code_simp
  have s1: "spec_repoPath ''nginx'' = ''library/nginx''" by code_simp
  have s2: "spec_repoPath ''registry.hub.docker.com/myorg/myimage'' = ''myorg/myimage''" by code_simp
  from repoPath_strips_in_turn [of "''nginx''", THEN conjunct2] h1 s1
  have a: "repoPath ''nginx'' = ''library/nginx''" by simp
  from repoPath_strips_in_turn [of "''registry.hub.docker.com/myorg/myimage''", THEN conjunct2] h2 s2
  have b: "repoPath ''registry.hub.docker.com/myorg/myimage'' = ''myorg/myimage''" by simp
  from a b h1 h2 show ?thesis by simp
qed

text \<open>
  Claim C9. \<^verbatim>\<open>IsClient\<close> is a function of the reference alone, and it holds exactly of the
  references that begin with \<^verbatim>\<open>docker.io/\<close> or with \<^verbatim>\<open>registry.hub.docker.com/\<close>.
\<close>

theorem IsClient_iff:
  "(IsClient c imageURL \<longleftrightarrow>
     (\<exists>rest. imageURL = ''docker.io/'' @ rest) \<or>
     (\<exists>rest. imageURL = ''registry.hub.docker.com/'' @ rest)) \<and>
   IsClient c imageURL = IsClient c' imageURL"
  by (simp add: IsClient_def HasPrefix_iff imagePrefix_def imagePrefixHub_def)

theorem IsClient_iff_witness:
  "IsClient (demo_client []) ''docker.io/nginx'' \<and>
   IsClient (demo_client []) ''registry.hub.docker.com/library/nginx'' \<and>
   \<not> IsClient (demo_client []) ''quay.io/nginx'' \<and> \<not> IsClient (demo_client []) ''nginx''"
  using IsClient_iff [of "demo_client []" "''docker.io/nginx''", THEN conjunct1]
    IsClient_iff [of "demo_client []" "''registry.hub.docker.com/library/nginx''", THEN conjunct1]
    IsClient_iff [of "demo_client []" "''quay.io/nginx''", THEN conjunct1]
    IsClient_iff [of "demo_client []" "''nginx''", THEN conjunct1]
  by simp

text \<open>
  Claim C10. \<^verbatim>\<open>doRequest\<close> does not look at the status code: whatever the code of the
  response, the result is the decoded page when the body decodes, and the error about an
  unexpected response otherwise.
\<close>

theorem doRequest_ignores_status:
  "parseURL env u = Inr parsed \<Longrightarrow>
   Do env (World st)
      \<lparr>Method = ''GET'', URL = parsed\<lparr>Scheme := ''https''\<rparr>, Header = authHeader c, ReqBody = []\<rparr>
     = (Inr \<lparr>StatusCode = code, Body = Inr body\<rparr>, w) \<Longrightarrow>
   fst (doRequest env c st u) =
     (case unmarshalTagResponse env body of
        Inl err \<Rightarrow> Inl (''unexpected image tags response: '' @ body)
      | Inr page \<Rightarrow> Inr page)"
proof -
  assume p: "parseURL env u = Inr parsed"
    and d: "Do env (World st)
      \<lparr>Method = ''GET'', URL = parsed\<lparr>Scheme := ''https''\<rparr>, Header = authHeader c, ReqBody = []\<rparr>
     = (Inr \<lparr>StatusCode = code, Body = Inr body\<rparr>, w)"
  show ?thesis
  proof (cases "JWT (Options c) = []")
    case True
    with p d show ?thesis
      by (simp add: doRequest_def NewRequest_def authHeader_def clientDo_def split: sum.splits)
  next
    case False
    with p d show ?thesis
      by (simp add: doRequest_def NewRequest_def HeaderAdd_def authHeader_def clientDo_def
               split: sum.splits)
  qed
qed

text \<open>A 404 whose body is a JSON object is taken as a page without results.\<close>

theorem doRequest_ignores_status_witness:
  "fst (doRequest demo_env (demo_client []) demo_net (repoURL (repoPath ''missing'')))
     = Inr \<lparr>Next = [], Results = []\<rparr> \<and>
   Tags demo_env (demo_client []) demo_net ''missing''
     = Some (Inr [], \<lparr>World = 1, Sent = [tagRequest [] ''library/missing/tags'']\<rparr>)"
proof -
  let ?u = "\<lparr>Scheme = ''https'', Rest = ''registry.hub.docker.com/v2/repositories/library/missing/tags''\<rparr>"
  have p: "parseURL demo_env (repoURL (repoPath ''missing'')) = Inr ?u" by code_simp
  have d: "Do demo_env (World demo_net)
      \<lparr>Method = ''GET'', URL = ?u\<lparr>Scheme := ''https''\<rparr>, Header = authHeader (demo_client []),
       ReqBody = []\<rparr>
     = (Inr \<lparr>StatusCode = 404, Body = Inr notfound_body\<rparr>, 1)" by code_simp
  have j: "unmarshalTagResponse demo_env notfound_body = Inr \<lparr>Next = [], Results = []\<rparr>"
    by code_simp
  have t: "Tags demo_env (demo_client []) demo_net ''missing''
     = Some (Inr [], \<lparr>World = 1, Sent = [tagRequest [] ''library/missing/tags'']\<rparr>)" by code_simp
  from doRequest_ignores_status [OF p d] j t show ?thesis by simp
qed

end
